theory Spec2Isabelle
  imports Complex_Main
begin

section \<open>The Code-Review check of scorecard (checks/code\_review.go)\<close>

text \<open>
  The check asks a GitHub client for evidence (pull requests, reviews, commits,
  branch protection) and folds what it finds into one \<open>CheckResult\<close>.
  The client is the only source of input, so a request is modelled as the
  answers the client gives: every operation returns either a Go error (\<open>Inl\<close>)
  or its value (\<open>Inr\<close>), as the \<open>(value, response, err)\<close> triples of
  go-github do with \<open>err != nil\<close> tested first. Pointer fields of the go-github
  structs are options, read through their nil-safe getters. What a check writes
  with \<open>c.Logf\<close> is returned next to its result, one entry per call.
\<close>

subsection \<open>Go values\<close>

datatype go_error = GoError string

type_synonym Timestamp = int

record User =
  User_Login :: "string option"

record Label =
  Label_Name :: "string option"

record PullRequest =
  PR_Number :: "int option"
  PR_MergedAt :: "Timestamp option"
  PR_MergeCommitSHA :: "string option"
  PR_Labels :: "Label list"

record PullRequestReview =
  Review_State :: "string option"

record Commit =
  Commit_Message :: "string option"

record RepositoryCommit =
  RC_Commit :: "Commit option"
  RC_Author :: "User option"
  RC_Committer :: "User option"

record Repository =
  Repository_DefaultBranch :: "string option"

record PullRequestReviewsEnforcement =
  RequiredApprovingReviewCount :: int

record Protection =
  Protection_RequiredPullRequestReviews :: "PullRequestReviewsEnforcement option"

text \<open>The getters of go-github: the zero value when the receiver or the field is nil.\<close>

definition User_GetLogin :: "User option \<Rightarrow> string" where
  "User_GetLogin u = (case u of None \<Rightarrow> [] | Some v \<Rightarrow> (case User_Login v of None \<Rightarrow> [] | Some s \<Rightarrow> s))"

definition Label_GetName :: "Label \<Rightarrow> string" where
  "Label_GetName l = (case Label_Name l of None \<Rightarrow> [] | Some s \<Rightarrow> s)"

definition PR_GetNumber :: "PullRequest \<Rightarrow> int" where
  "PR_GetNumber pr = (case PR_Number pr of None \<Rightarrow> 0 | Some n \<Rightarrow> n)"

definition PR_GetMergeCommitSHA :: "PullRequest \<Rightarrow> string" where
  "PR_GetMergeCommitSHA pr = (case PR_MergeCommitSHA pr of None \<Rightarrow> [] | Some s \<Rightarrow> s)"

definition Review_GetState :: "PullRequestReview \<Rightarrow> string" where
  "Review_GetState r = (case Review_State r of None \<Rightarrow> [] | Some s \<Rightarrow> s)"

definition Commit_GetMessage :: "Commit option \<Rightarrow> string" where
  "Commit_GetMessage m = (case m of None \<Rightarrow> [] | Some v \<Rightarrow> (case Commit_Message v of None \<Rightarrow> [] | Some s \<Rightarrow> s))"

definition Repository_GetDefaultBranch :: "Repository \<Rightarrow> string" where
  "Repository_GetDefaultBranch r = (case Repository_DefaultBranch r of None \<Rightarrow> [] | Some s \<Rightarrow> s)"

text \<open>\<open>strings.Contains(s, substr)\<close>: \<open>substr\<close> occurs in \<open>s\<close> as a contiguous run of bytes.\<close>

fun HasPrefix :: "string \<Rightarrow> string \<Rightarrow> bool" where
  "HasPrefix s [] = True"
| "HasPrefix [] (p # ps) = False"
| "HasPrefix (x # s) (p # ps) = (x = p \<and> HasPrefix s ps)"

fun Contains :: "string \<Rightarrow> string \<Rightarrow> bool" where
  "Contains [] substr = (substr = [])"
| "Contains (x # s) substr = (HasPrefix (x # s) substr \<or> Contains s substr)"

subsection \<open>The request and the client\<close>

text \<open>
  The operations of \<open>c.Client\<close> the checks call, with the arguments they pass
  (owner, repository, then the listing state, the pull-request number, the
  commit SHA or the branch).
\<close>

record GithubClient =
  PullRequests_List :: "string \<Rightarrow> string \<Rightarrow> string \<Rightarrow> go_error + PullRequest list"
  PullRequests_ListReviews :: "string \<Rightarrow> string \<Rightarrow> int \<Rightarrow> go_error + PullRequestReview list"
  Repositories_Get :: "string \<Rightarrow> string \<Rightarrow> go_error + Repository"
  Repositories_GetBranchProtection :: "string \<Rightarrow> string \<Rightarrow> string \<Rightarrow> go_error + Protection"
  Repositories_GetCommit :: "string \<Rightarrow> string \<Rightarrow> string \<Rightarrow> go_error + RepositoryCommit"
  Repositories_ListCommits :: "string \<Rightarrow> string \<Rightarrow> go_error + RepositoryCommit list"

record CheckRequest =
  Client :: GithubClient
  Owner :: string
  Repo :: string

datatype LogArg = IntArg int | StrArg string

type_synonym LogLine = "string \<times> LogArg list"

subsection \<open>The result model\<close>

text \<open>
  Modelled from the spec: the error classification carried inside a Result,
  one of none, retryable-transient and inconclusive-insufficient-evidence; the
  checker package that declares it is not among the sources.
\<close>

datatype ErrorClass = ErrNone | ErrRetryable | ErrInconclusive

text \<open>
  Modelled from the spec: the fields \<open>Classification\<close> and \<open>Cause\<close> of a Result
  (its error classification and the error it was built from); the declaration
  of \<open>checker.CheckResult\<close> is not among the sources. \<open>Name\<close>, \<open>Pass\<close> and
  \<open>Confidence\<close> are the fields the struct literal in \<open>IsPrReviewRequired\<close>
  sets; a struct literal that names no other field leaves the rest at the zero
  value (\<open>ErrNone\<close>, \<open>None\<close>).
\<close>

record CheckResult =
  Name :: string
  Pass :: bool
  Confidence :: int
  Classification :: ErrorClass
  Cause :: "go_error option"

type_synonym CheckFn = "CheckRequest \<Rightarrow> CheckResult \<times> LogLine list"

text \<open>
  Modelled from the spec: the upper end of the bounded confidence range of a
  Result, which the spec gives as 0 to 10; the constant of the checker package
  is not among the sources.
\<close>

definition MaxResultConfidence :: int where
  "MaxResultConfidence = 10"

text \<open>
  Modelled from the spec: \<open>checker.MakeRetryResult\<close>, which is not among the
  sources. It builds a Result tagged retryable-transient with the cause, and
  never asserts a pass. The spec gives such a Result no confidence; the field
  is left at the zero value.
\<close>

definition MakeRetryResult :: "string \<Rightarrow> go_error option \<Rightarrow> CheckResult" where
  "MakeRetryResult name err =
     \<lparr>Name = name, Pass = False, Confidence = 0, Classification = ErrRetryable, Cause = err\<rparr>"

text \<open>
  Modelled from the spec: \<open>checker.MakeInconclusiveResult\<close>, which is not among
  the sources. It builds a Result tagged inconclusive with the cause (nil when
  the caller has none). The spec gives such a Result no verdict and no
  confidence; the fields are left at the zero value.
\<close>

definition MakeInconclusiveResult :: "string \<Rightarrow> go_error option \<Rightarrow> CheckResult" where
  "MakeInconclusiveResult name err =
     \<lparr>Name = name, Pass = False, Confidence = 0, Classification = ErrInconclusive, Cause = err\<rparr>"

text \<open>
  Modelled from the spec: the confidence curve of the proportional scoring
  rule, which is not among the sources. The spec leaves the curve open beyond
  monotonic in the ratio, deterministic and bounded, with ratio zero at the
  floor; the curve taken here is the ratio scaled to the confidence range,
  rounded down and clamped to the range.
\<close>

definition proportionalConfidence :: "rat \<Rightarrow> int" where
  "proportionalConfidence ratio =
     min MaxResultConfidence (max 0 \<lfloor>ratio * of_int MaxResultConfidence\<rfloor>)"

text \<open>
  Modelled from the spec: \<open>checker.MakeProportionalResult\<close>, the proportional
  scoring rule, which is not among the sources. The ratio is
  \<open>numerator / denominator\<close>, the verdict is a pass iff the ratio reaches the
  threshold, and the result is definitive (no error classification). The
  threshold \<open>.75\<close> of the callers is the fraction 3/4. The spec gives the rule
  no value at denominator zero (the rule assumes a positive denominator), so
  the model gives it none either.
\<close>

definition MakeProportionalResult :: "string \<Rightarrow> int \<Rightarrow> int \<Rightarrow> rat \<Rightarrow> CheckResult" where
  "MakeProportionalResult name numerator denominator threshold =
     (if denominator = 0 then undefined
      else let ratio = of_int numerator / of_int denominator
           in \<lparr>Name = name, Pass = (threshold \<le> ratio),
               Confidence = proportionalConfidence ratio,
               Classification = ErrNone, Cause = None\<rparr>)"

subsection \<open>The heuristic checks\<close>

definition CheckCodeReview :: string where
  "CheckCodeReview = ''Code-Review''"

definition ErrorNoReviews :: go_error where
  "ErrorNoReviews = GoError ''no reviews found''"

text \<open>\<open>IsPrReviewRequired\<close>: is review enforced by the branch protection of the default branch?\<close>

definition IsPrReviewRequired :: CheckFn where
  "IsPrReviewRequired c =
     (case Repositories_Get (Client c) (Owner c) (Repo c) of
        Inl err \<Rightarrow> (MakeRetryResult CheckCodeReview (Some err), [])
      | Inr r \<Rightarrow>
          (case Repositories_GetBranchProtection (Client c) (Owner c) (Repo c)
                  (Repository_GetDefaultBranch r) of
             Inl err \<Rightarrow> (MakeInconclusiveResult CheckCodeReview (Some err), [])
           | Inr bp \<Rightarrow>
               if (case Protection_RequiredPullRequestReviews bp of
                     None \<Rightarrow> False
                   | Some e \<Rightarrow> 1 \<le> RequiredApprovingReviewCount e)
               then (\<lparr>Name = CheckCodeReview, Pass = True, Confidence = 5,
                       Classification = ErrNone, Cause = None\<rparr>,
                     [(''pr review policy enforced'', [])])
               else (MakeInconclusiveResult CheckCodeReview None, [])))"

text \<open>
  \<open>GithubCodeReview\<close>. The inner loop over the reviews of one pull request stops
  at the first approved one; it returns \<open>totalReviewed\<close>, \<open>foundApprovedReview\<close>
  and the log.
\<close>

fun GithubCodeReview_reviews ::
  "int \<Rightarrow> PullRequestReview list \<Rightarrow> int \<Rightarrow> LogLine list \<Rightarrow> int \<times> bool \<times> LogLine list" where
  "GithubCodeReview_reviews n [] totalReviewed lg = (totalReviewed, False, lg)"
| "GithubCodeReview_reviews n (r # rs) totalReviewed lg =
     (if Review_GetState r = ''APPROVED''
      then (totalReviewed + 1, True, lg @ [(''found review approved pr: %d'', [IntArg n])])
      else GithubCodeReview_reviews n rs totalReviewed lg)"

text \<open>One round of the loop over the pull requests; the state is \<open>(totalMerged, totalReviewed, log)\<close>.\<close>

definition GithubCodeReview_body ::
  "CheckRequest \<Rightarrow> PullRequest \<Rightarrow> int \<times> int \<times> LogLine list \<Rightarrow> int \<times> int \<times> LogLine list" where
  "GithubCodeReview_body c pr st =
     (case st of (totalMerged, totalReviewed, lg) \<Rightarrow>
        if PR_MergedAt pr = None then st
        else
          (case PullRequests_ListReviews (Client c) (Owner c) (Repo c) (PR_GetNumber pr) of
             Inl err \<Rightarrow> (totalMerged + 1, totalReviewed, lg)
           | Inr reviews \<Rightarrow>
               (case GithubCodeReview_reviews (PR_GetNumber pr) reviews totalReviewed lg of
                  (totalReviewed', foundApprovedReview, lg') \<Rightarrow>
                    if \<not> foundApprovedReview then
                      (case Repositories_GetCommit (Client c) (Owner c) (Repo c)
                              (PR_GetMergeCommitSHA pr) of
                         Inl err \<Rightarrow> (totalMerged + 1, totalReviewed', lg')
                       | Inr commit \<Rightarrow>
                           let commitAuthor = User_GetLogin (RC_Author commit);
                               commitCommitter = User_GetLogin (RC_Committer commit)
                           in if commitAuthor \<noteq> [] \<and> commitCommitter \<noteq> []
                                 \<and> commitAuthor \<noteq> commitCommitter
                              then (totalMerged + 1, totalReviewed' + 1,
                                    lg' @ [(''found pr with committer different than author: %d'',
                                            [IntArg (PR_GetNumber pr)])])
                              else (totalMerged + 1, totalReviewed', lg'))
                    else (totalMerged + 1, totalReviewed', lg'))))"

fun GithubCodeReview_loop ::
  "CheckRequest \<Rightarrow> PullRequest list \<Rightarrow> int \<times> int \<times> LogLine list \<Rightarrow> int \<times> int \<times> LogLine list" where
  "GithubCodeReview_loop c [] st = st"
| "GithubCodeReview_loop c (pr # prs) st = GithubCodeReview_loop c prs (GithubCodeReview_body c pr st)"

definition GithubCodeReview :: CheckFn where
  "GithubCodeReview c =
     (case PullRequests_List (Client c) (Owner c) (Repo c) ''closed'' of
        Inl err \<Rightarrow> (MakeInconclusiveResult CheckCodeReview (Some err), [])
      | Inr prs \<Rightarrow>
          (case GithubCodeReview_loop c prs (0, 0, []) of
             (totalMerged, totalReviewed, lg) \<Rightarrow>
               (MakeProportionalResult CheckCodeReview totalReviewed totalMerged (3 / 4),
                if 0 < totalReviewed then lg @ [(''github code reviews found'', [])] else lg)))"

text \<open>
  \<open>ProwCodeReview\<close>. The inner loop over the labels of one pull request stops at
  the first \<open>lgtm\<close> or \<open>approved\<close>; the state of the outer loop is
  \<open>(totalMerged, totalReviewed)\<close>.
\<close>

fun ProwCodeReview_labels :: "Label list \<Rightarrow> int \<Rightarrow> int" where
  "ProwCodeReview_labels [] totalReviewed = totalReviewed"
| "ProwCodeReview_labels (l # ls) totalReviewed =
     (if Label_GetName l = ''lgtm'' \<or> Label_GetName l = ''approved''
      then totalReviewed + 1
      else ProwCodeReview_labels ls totalReviewed)"

definition ProwCodeReview_body :: "PullRequest \<Rightarrow> int \<times> int \<Rightarrow> int \<times> int" where
  "ProwCodeReview_body pr st =
     (case st of (totalMerged, totalReviewed) \<Rightarrow>
        if PR_MergedAt pr = None then st
        else (totalMerged + 1, ProwCodeReview_labels (PR_Labels pr) totalReviewed))"

fun ProwCodeReview_loop :: "PullRequest list \<Rightarrow> int \<times> int \<Rightarrow> int \<times> int" where
  "ProwCodeReview_loop [] st = st"
| "ProwCodeReview_loop (pr # prs) st = ProwCodeReview_loop prs (ProwCodeReview_body pr st)"

definition ProwCodeReview :: CheckFn where
  "ProwCodeReview c =
     (case PullRequests_List (Client c) (Owner c) (Repo c) ''closed'' of
        Inl err \<Rightarrow> (MakeInconclusiveResult CheckCodeReview (Some err), [])
      | Inr prs \<Rightarrow>
          (case ProwCodeReview_loop prs (0, 0) of
             (totalMerged, totalReviewed) \<Rightarrow>
               if totalReviewed = 0
               then (MakeInconclusiveResult CheckCodeReview (Some ErrorNoReviews), [])
               else (MakeProportionalResult CheckCodeReview totalReviewed totalMerged (3 / 4),
                     [(''prow code reviews found'', [])])))"

text \<open>
  \<open>CommitMessageHints\<close>. The inner loop over the denylist sets \<open>isBot\<close> at the
  first substring the committer's login contains; the state of the outer loop
  is \<open>(total, totalReviewed, log)\<close>.
\<close>

fun CommitMessageHints_isBot :: "string \<Rightarrow> string list \<Rightarrow> bool" where
  "CommitMessageHints_isBot committer [] = False"
| "CommitMessageHints_isBot committer (substring # rest) =
     (if Contains committer substring then True else CommitMessageHints_isBot committer rest)"

definition CommitMessageHints_body ::
  "RepositoryCommit \<Rightarrow> int \<times> int \<times> LogLine list \<Rightarrow> int \<times> int \<times> LogLine list" where
  "CommitMessageHints_body commit st =
     (case st of (total', totalReviewed, lg) \<Rightarrow>
        let committer = User_GetLogin (RC_Committer commit)
        in if CommitMessageHints_isBot committer [''bot'', ''gardener'']
           then (total', totalReviewed, lg @ [(''skip commit from bot account: %s'', [StrArg committer])])
           else
             let commitMessage = Commit_GetMessage (RC_Commit commit)
             in if Contains commitMessage ''\<newline>Reviewed-on: ''
                   \<and> Contains commitMessage ''\<newline>Reviewed-by: ''
                then (total' + 1, totalReviewed + 1, lg)
                else (total' + 1, totalReviewed, lg))"

fun CommitMessageHints_loop ::
  "RepositoryCommit list \<Rightarrow> int \<times> int \<times> LogLine list \<Rightarrow> int \<times> int \<times> LogLine list" where
  "CommitMessageHints_loop [] st = st"
| "CommitMessageHints_loop (commit # commits) st =
     CommitMessageHints_loop commits (CommitMessageHints_body commit st)"

definition CommitMessageHints :: CheckFn where
  "CommitMessageHints c =
     (case Repositories_ListCommits (Client c) (Owner c) (Repo c) of
        Inl err \<Rightarrow> (MakeRetryResult CheckCodeReview (Some err), [])
      | Inr commits \<Rightarrow>
          (case CommitMessageHints_loop commits (0, 0, []) of
             (total', totalReviewed, lg) \<Rightarrow>
               if totalReviewed = 0
               then (MakeInconclusiveResult CheckCodeReview (Some ErrorNoReviews), lg)
               else (MakeProportionalResult CheckCodeReview totalReviewed total' (3 / 4),
                     lg @ [(''code reviews found'', [])])))"

subsection \<open>The combinator\<close>

text \<open>
  Modelled from the spec: \<open>checker.MultiCheckOr\<close> (the spec's \<open>anyOf\<close>), which
  is not among the sources. The children run against the same request in the
  given order, and the run stops at the first definitive pass (a pass with no
  error classification). The results seen are folded by the spec's rule: a
  definitive pass is returned with its name rewritten to the combinator's own
  name; otherwise the first retryable-transient result; otherwise the last
  inconclusive result; with no child at all the result is inconclusive. The
  combinator's own name is the name it is registered under, which the source's
  call does not pass. The spec does not say what is returned when every child
  fails definitively; the model then returns the inconclusive result of the
  run with no child, and no theorem below rests on that case.
\<close>

definition definitivePass :: "CheckResult \<Rightarrow> bool" where
  "definitivePass r = (Pass r \<and> Classification r = ErrNone)"

definition isRetryable :: "CheckResult \<Rightarrow> bool" where
  "isRetryable r = (Classification r = ErrRetryable)"

definition isInconclusive :: "CheckResult \<Rightarrow> bool" where
  "isInconclusive r = (Classification r = ErrInconclusive)"

text \<open>
  Modelled from the spec: the run of the children of \<open>checker.MultiCheckOr\<close>, in
  the given order and up to the first definitive pass; it returns the results
  seen and the log lines of the children that ran.
\<close>

fun MultiCheckOr_run :: "CheckFn list \<Rightarrow> CheckRequest \<Rightarrow> CheckResult list \<times> LogLine list" where
  "MultiCheckOr_run [] c = ([], [])"
| "MultiCheckOr_run (f # fs) c =
     (case f c of
        (result, lg) \<Rightarrow>
          if definitivePass result then ([result], lg)
          else (case MultiCheckOr_run fs c of (results, lg') \<Rightarrow> (result # results, lg @ lg')))"

text \<open>
  Modelled from the spec: the folding rule of \<open>checker.MultiCheckOr\<close> over the
  results seen, for a combinator registered under \<open>name\<close>.
\<close>

definition MultiCheckOr_fold :: "string \<Rightarrow> CheckResult list \<Rightarrow> CheckResult" where
  "MultiCheckOr_fold name results =
     (case find definitivePass results of
        Some r \<Rightarrow> r\<lparr>Name := name\<rparr>
      | None \<Rightarrow>
          (case find isRetryable results of
             Some r \<Rightarrow> r
           | None \<Rightarrow>
               (case find isInconclusive (rev results) of
                  Some r \<Rightarrow> r
                | None \<Rightarrow> MakeInconclusiveResult name None)))"

text \<open>Modelled from the spec: \<open>checker.MultiCheckOr\<close>, the run followed by the fold.\<close>

definition MultiCheckOr :: "string \<Rightarrow> CheckFn list \<Rightarrow> CheckFn" where
  "MultiCheckOr name fs c =
     (case MultiCheckOr_run fs c of (results, lg) \<Rightarrow> (MultiCheckOr_fold name results, lg))"

text \<open>
  \<open>DoesCodeReview\<close>, which \<open>init\<close> registers under \<open>CheckCodeReview\<close>: the
  combinator over the four heuristics, in the order of the source.
\<close>

definition DoesCodeReview :: CheckFn where
  "DoesCodeReview c =
     MultiCheckOr CheckCodeReview
       [IsPrReviewRequired, GithubCodeReview, ProwCodeReview, CommitMessageHints] c"

subsection \<open>Populations and positive observations\<close>

text \<open>
  What each loop counts, stated on the items themselves and apart from the
  loops: the eligible population of a heuristic and the items of it that count
  as reviewed. The theorems of the next section compare the loops with these.
\<close>

definition eligiblePR :: "PullRequest \<Rightarrow> bool" where
  "eligiblePR pr = (PR_MergedAt pr \<noteq> None)"

definition approvedReview :: "PullRequestReview \<Rightarrow> bool" where
  "approvedReview r = (Review_GetState r = ''APPROVED'')"

definition githubPositive :: "CheckRequest \<Rightarrow> PullRequest \<Rightarrow> bool" where
  "githubPositive c pr =
     (case PullRequests_ListReviews (Client c) (Owner c) (Repo c) (PR_GetNumber pr) of
        Inl err \<Rightarrow> False
      | Inr reviews \<Rightarrow>
          list_ex approvedReview reviews
          \<or> (case Repositories_GetCommit (Client c) (Owner c) (Repo c) (PR_GetMergeCommitSHA pr) of
                Inl err \<Rightarrow> False
              | Inr commit \<Rightarrow>
                  User_GetLogin (RC_Author commit) \<noteq> []
                  \<and> User_GetLogin (RC_Committer commit) \<noteq> []
                  \<and> User_GetLogin (RC_Author commit) \<noteq> User_GetLogin (RC_Committer commit)))"

definition prowPositive :: "PullRequest \<Rightarrow> bool" where
  "prowPositive pr =
     list_ex (\<lambda>l. Label_GetName l = ''lgtm'' \<or> Label_GetName l = ''approved'') (PR_Labels pr)"

definition botCommitter :: "RepositoryCommit \<Rightarrow> bool" where
  "botCommitter commit =
     (Contains (User_GetLogin (RC_Committer commit)) ''bot''
      \<or> Contains (User_GetLogin (RC_Committer commit)) ''gardener'')"

definition eligibleCommit :: "RepositoryCommit \<Rightarrow> bool" where
  "eligibleCommit commit = (\<not> botCommitter commit)"

definition commitPositive :: "RepositoryCommit \<Rightarrow> bool" where
  "commitPositive commit =
     (Contains (Commit_GetMessage (RC_Commit commit)) ''\<newline>Reviewed-on: ''
      \<and> Contains (Commit_GetMessage (RC_Commit commit)) ''\<newline>Reviewed-by: '')"

definition count :: "('a \<Rightarrow> bool) \<Rightarrow> 'a list \<Rightarrow> int" where
  "count P xs = int (length (filter P xs))"

subsection \<open>Concrete requests\<close>

text \<open>Requests on which the theorems below are evaluated.\<close>

definition transportError :: go_error where
  "transportError = GoError ''connection reset by peer''"

definition failingClient :: GithubClient where
  "failingClient =
     \<lparr>PullRequests_List = (\<lambda>owner repo state. Inl transportError),
      PullRequests_ListReviews = (\<lambda>owner repo n. Inl transportError),
      Repositories_Get = (\<lambda>owner repo. Inl transportError),
      Repositories_GetBranchProtection = (\<lambda>owner repo branch. Inl transportError),
      Repositories_GetCommit = (\<lambda>owner repo sha. Inl transportError),
      Repositories_ListCommits = (\<lambda>owner repo. Inl transportError)\<rparr>"

definition request :: "GithubClient \<Rightarrow> CheckRequest" where
  "request cl = \<lparr>Client = cl, Owner = ''ossf'', Repo = ''scorecard''\<rparr>"

definition mergedPR :: "int \<Rightarrow> Label list \<Rightarrow> PullRequest" where
  "mergedPR n labels =
     \<lparr>PR_Number = Some n, PR_MergedAt = Some 1600000000,
      PR_MergeCommitSHA = Some ''c0ffee'', PR_Labels = labels\<rparr>"

definition unmergedPR :: "int \<Rightarrow> PullRequest" where
  "unmergedPR n =
     \<lparr>PR_Number = Some n, PR_MergedAt = None, PR_MergeCommitSHA = None, PR_Labels = []\<rparr>"

definition mainRepository :: Repository where
  "mainRepository = \<lparr>Repository_DefaultBranch = Some ''main''\<rparr>"

definition reviewProtection :: "int \<Rightarrow> Protection" where
  "reviewProtection n =
     \<lparr>Protection_RequiredPullRequestReviews = Some \<lparr>RequiredApprovingReviewCount = n\<rparr>\<rparr>"

text \<open>Every fetch fails.\<close>

definition req_all_fail :: CheckRequest where
  "req_all_fail = request failingClient"

text \<open>One merged pull request without labels; every other fetch fails.\<close>

definition req_reviews_unreadable :: CheckRequest where
  "req_reviews_unreadable =
     request (failingClient
       \<lparr>PullRequests_List :=
          (\<lambda>owner repo state. if state = ''closed'' then Inr [mergedPR 7 []] else Inl transportError)\<rparr>)"

text \<open>One closed pull request that was never merged.\<close>

definition req_no_merged :: CheckRequest where
  "req_no_merged =
     request (failingClient
       \<lparr>PullRequests_List :=
          (\<lambda>owner repo state. if state = ''closed'' then Inr [unmergedPR 3] else Inl transportError)\<rparr>)"

text \<open>The repository is readable, its branch protection is not.\<close>

definition req_protection_unreadable :: CheckRequest where
  "req_protection_unreadable =
     request (failingClient\<lparr>Repositories_Get := (\<lambda>owner repo. Inr mainRepository)\<rparr>)"

text \<open>The default branch requires one approving review.\<close>

definition req_protected :: CheckRequest where
  "req_protected =
     request (failingClient
       \<lparr>Repositories_Get := (\<lambda>owner repo. Inr mainRepository),
        Repositories_GetBranchProtection :=
          (\<lambda>owner repo branch. if branch = ''main'' then Inr (reviewProtection 1) else Inl transportError)\<rparr>)"

text \<open>Reviews, labels and commits to build listings from.\<close>

definition approved :: PullRequestReview where
  "approved = \<lparr>Review_State = Some ''APPROVED''\<rparr>"

definition commented :: PullRequestReview where
  "commented = \<lparr>Review_State = Some ''COMMENTED''\<rparr>"

definition label :: "string \<Rightarrow> Label" where
  "label s = \<lparr>Label_Name = Some s\<rparr>"

definition gerritMessage :: string where
  "gerritMessage = ''Fix parser\<newline>\<newline>Reviewed-on: https://review/1\<newline>Reviewed-by: Bob''"

definition commitBy :: "string \<Rightarrow> string \<Rightarrow> string \<Rightarrow> RepositoryCommit" where
  "commitBy author committer message =
     \<lparr>RC_Commit = Some \<lparr>Commit_Message = Some message\<rparr>,
      RC_Author = Some \<lparr>User_Login = Some author\<rparr>,
      RC_Committer = Some \<lparr>User_Login = Some committer\<rparr>\<rparr>"

text \<open>
  One merged pull request without labels, reviews or a readable merge commit,
  and one commit by a person without review trailers; the repository is
  readable, its branch protection is not.
\<close>

definition req_unreviewed :: CheckRequest where
  "req_unreviewed =
     request (failingClient
       \<lparr>PullRequests_List :=
          (\<lambda>owner repo state. if state = ''closed'' then Inr [mergedPR 7 []] else Inl transportError),
        PullRequests_ListReviews := (\<lambda>owner repo n. Inr []),
        Repositories_Get := (\<lambda>owner repo. Inr mainRepository),
        Repositories_ListCommits := (\<lambda>owner repo. Inr [commitBy ''alice'' ''alice'' ''Fix typo''])\<rparr>)"

text \<open>The same, with the commit listing failing.\<close>

definition req_commits_unreadable :: CheckRequest where
  "req_commits_unreadable =
     request (failingClient
       \<lparr>PullRequests_List :=
          (\<lambda>owner repo state. if state = ''closed'' then Inr [mergedPR 7 []] else Inl transportError),
        PullRequests_ListReviews := (\<lambda>owner repo n. Inr []),
        Repositories_Get := (\<lambda>owner repo. Inr mainRepository)\<rparr>)"

text \<open>
  A history with five closed pull requests and three commits. Pull request 1
  has an approved review and the label \<open>lgtm\<close>; 2 has neither, and its merge
  commit has a committer other than its author; 3 was not merged; 4 has two
  approved reviews and both labels; 5 has nothing, and its merge commit cannot
  be fetched. The second commit was committed by a bot account, the third was
  authored by one. The repository itself cannot be fetched.
\<close>

definition samplePRs :: "PullRequest list" where
  "samplePRs =
     [mergedPR 1 [label ''lgtm''],
      mergedPR 2 [],
      unmergedPR 3,
      mergedPR 4 [label ''size/S'', label ''approved'', label ''lgtm''],
      (mergedPR 5 [])\<lparr>PR_MergeCommitSHA := Some ''badc0de''\<rparr>]"

definition sampleCommits :: "RepositoryCommit list" where
  "sampleCommits =
     [commitBy ''alice'' ''alice'' gerritMessage,
      commitBy ''carol'' ''k8s-ci-robot'' gerritMessage,
      commitBy ''dependabot'' ''dave'' ''Bump x from 1 to 2'']"

definition req_sample :: CheckRequest where
  "req_sample =
     request (failingClient
       \<lparr>PullRequests_List :=
          (\<lambda>owner repo state. if state = ''closed'' then Inr samplePRs else Inl transportError),
        PullRequests_ListReviews :=
          (\<lambda>owner repo n.
             if n = 1 then Inr [commented, approved]
             else if n = 4 then Inr [approved, approved]
             else if n = 2 \<or> n = 5 then Inr []
             else Inl transportError),
        Repositories_GetCommit :=
          (\<lambda>owner repo sha.
             if sha = ''c0ffee'' then Inr (commitBy ''alice'' ''bob'' ''Merge pull request'')
             else Inl transportError),
        Repositories_ListCommits := (\<lambda>owner repo. Inr sampleCommits)\<rparr>)"

text \<open>A reviewed commit authored by a bot account, and one committed by a bot account.\<close>

definition commit_bot_author :: RepositoryCommit where
  "commit_bot_author = commitBy ''dependabot'' ''dave'' gerritMessage"

definition commit_bot_committer :: RepositoryCommit where
  "commit_bot_committer = commitBy ''carol'' ''k8s-ci-robot'' gerritMessage"

section \<open>Properties\<close>

lemmas ex_defs = request_def failingClient_def mainRepository_def reviewProtection_def
  mergedPR_def unmergedPR_def

lemmas sample_defs = req_sample_def samplePRs_def sampleCommits_def approved_def commented_def
  label_def gerritMessage_def commitBy_def

lemmas getter_defs = User_GetLogin_def Label_GetName_def PR_GetNumber_def PR_GetMergeCommitSHA_def
  Review_GetState_def Commit_GetMessage_def Repository_GetDefaultBranch_def

lemmas result_defs = MakeRetryResult_def MakeInconclusiveResult_def MakeProportionalResult_def
  proportionalConfidence_def MaxResultConfidence_def definitivePass_def

subsection \<open>\<open>Contains\<close> is the substring relation\<close>

lemma HasPrefix_iff: "HasPrefix s p \<longleftrightarrow> (\<exists>b. s = p @ b)"
  by (induction s p rule: HasPrefix.induct) auto

lemma Contains_iff: "Contains s substr \<longleftrightarrow> (\<exists>a b. s = a @ substr @ b)"
proof (induction s)
  case Nil
  show ?case by auto
next
  case (Cons x s)
  note IH = Cons.IH
  show ?case
  proof
    assume "Contains (x # s) substr"
    then consider "HasPrefix (x # s) substr" | "Contains s substr" by auto
    then show "\<exists>a b. x # s = a @ substr @ b"
    proof cases
      case 1
      then obtain b where "x # s = substr @ b" by (auto simp: HasPrefix_iff)
      then have "x # s = [] @ substr @ b" by simp
      then show ?thesis by blast
    next
      case 2
      then obtain a b where "s = a @ substr @ b" using IH by auto
      then have "x # s = (x # a) @ substr @ b" by simp
      then show ?thesis by blast
    qed
  next
    assume "\<exists>a b. x # s = a @ substr @ b"
    then obtain a b where ab: "x # s = a @ substr @ b" by auto
    show "Contains (x # s) substr"
    proof (cases "a = []")
      case True
      with ab have "HasPrefix (x # s) substr" by (auto simp: HasPrefix_iff)
      then show ?thesis by simp
    next
      case False
      then obtain y a' where "a = y # a'" by (cases a) auto
      with ab have "s = a' @ substr @ b" by simp
      then have "Contains s substr" using IH by blast
      then show ?thesis by simp
    qed
  qed
qed

subsection \<open>What the loops count\<close>

lemma count_simps [simp]:
  "count P [] = 0"
  "count P (x # xs) = (if P x then 1 + count P xs else count P xs)"
  by (simp_all add: count_def)

lemma count_conj_le: "count (\<lambda>x. P x \<and> Q x) xs \<le> count P xs"
  by (induction xs) auto

lemma count_nonneg: "0 \<le> count P xs"
  by (simp add: count_def)

lemma GithubCodeReview_reviews_eq:
  "GithubCodeReview_reviews n rs totalReviewed lg =
     (if list_ex approvedReview rs
      then (totalReviewed + 1, True, lg @ [(''found review approved pr: %d'', [IntArg n])])
      else (totalReviewed, False, lg))"
  by (induction rs) (auto simp: approvedReview_def)

lemma GithubCodeReview_body_totals:
  "fst (GithubCodeReview_body c pr st) = (if eligiblePR pr then fst st + 1 else fst st)"
  "fst (snd (GithubCodeReview_body c pr st))
     = (if eligiblePR pr \<and> githubPositive c pr then fst (snd st) + 1 else fst (snd st))"
  by (cases st; auto simp: GithubCodeReview_body_def GithubCodeReview_reviews_eq eligiblePR_def
        githubPositive_def Let_def split: sum.splits)+

lemma GithubCodeReview_loop_merged:
  "fst (GithubCodeReview_loop c prs st) = fst st + count eligiblePR prs"
  by (induction prs arbitrary: st) (simp_all add: GithubCodeReview_body_totals)

lemma GithubCodeReview_loop_reviewed:
  "fst (snd (GithubCodeReview_loop c prs st))
     = fst (snd st) + count (\<lambda>pr. eligiblePR pr \<and> githubPositive c pr) prs"
  by (induction prs arbitrary: st) (simp_all add: GithubCodeReview_body_totals)

lemma ProwCodeReview_labels_eq:
  "ProwCodeReview_labels ls totalReviewed =
     (if list_ex (\<lambda>l. Label_GetName l = ''lgtm'' \<or> Label_GetName l = ''approved'') ls
      then totalReviewed + 1 else totalReviewed)"
  by (induction ls) auto

lemma ProwCodeReview_body_totals:
  "ProwCodeReview_body pr (totalMerged, totalReviewed)
     = (if eligiblePR pr then totalMerged + 1 else totalMerged,
        if eligiblePR pr \<and> prowPositive pr then totalReviewed + 1 else totalReviewed)"
  by (simp add: ProwCodeReview_body_def ProwCodeReview_labels_eq eligiblePR_def prowPositive_def)

lemma ProwCodeReview_loop_totals:
  "ProwCodeReview_loop prs st
     = (fst st + count eligiblePR prs,
        snd st + count (\<lambda>pr. eligiblePR pr \<and> prowPositive pr) prs)"
proof (induction prs arbitrary: st)
  case Nil
  show ?case by simp
next
  case (Cons pr prs)
  obtain tm tr where st: "st = (tm, tr)" by (cases st) auto
  show ?case by (simp add: Cons.IH st ProwCodeReview_body_totals)
qed

lemma CommitMessageHints_isBot_denylist:
  "CommitMessageHints_isBot committer [''bot'', ''gardener'']
     = (Contains committer ''bot'' \<or> Contains committer ''gardener'')"
  by simp

lemma CommitMessageHints_body_totals:
  "fst (CommitMessageHints_body commit st)
     = (if eligibleCommit commit then fst st + 1 else fst st)"
  "fst (snd (CommitMessageHints_body commit st))
     = (if eligibleCommit commit \<and> commitPositive commit then fst (snd st) + 1 else fst (snd st))"
  by (cases st; simp add: CommitMessageHints_body_def Let_def eligibleCommit_def botCommitter_def
        commitPositive_def del: Contains.simps)+

lemma CommitMessageHints_loop_total:
  "fst (CommitMessageHints_loop commits st) = fst st + count eligibleCommit commits"
  by (induction commits arbitrary: st) (simp_all add: CommitMessageHints_body_totals)

lemma CommitMessageHints_loop_reviewed:
  "fst (snd (CommitMessageHints_loop commits st))
     = fst (snd st) + count (\<lambda>commit. eligibleCommit commit \<and> commitPositive commit) commits"
  by (induction commits arbitrary: st) (simp_all add: CommitMessageHints_body_totals)

text \<open>The result of each sampling heuristic once its listing is fetched.\<close>

lemma GithubCodeReview_sampled:
  assumes "PullRequests_List (Client c) (Owner c) (Repo c) ''closed'' = Inr prs"
  shows "fst (GithubCodeReview c)
           = MakeProportionalResult CheckCodeReview
               (count (\<lambda>pr. eligiblePR pr \<and> githubPositive c pr) prs) (count eligiblePR prs) (3 / 4)"
proof -
  obtain tm tr lg where l: "GithubCodeReview_loop c prs (0, 0, []) = (tm, tr, lg)"
    by (cases "GithubCodeReview_loop c prs (0, 0, [])") auto
  have "tm = count eligiblePR prs"
    using GithubCodeReview_loop_merged [of c prs "(0, 0, [])"] l by simp
  moreover have "tr = count (\<lambda>pr. eligiblePR pr \<and> githubPositive c pr) prs"
    using GithubCodeReview_loop_reviewed [of c prs "(0, 0, [])"] l by simp
  ultimately show ?thesis
    using assms l by (simp add: GithubCodeReview_def)
qed

lemma ProwCodeReview_sampled:
  assumes "PullRequests_List (Client c) (Owner c) (Repo c) ''closed'' = Inr prs"
  shows "fst (ProwCodeReview c)
           = (if count (\<lambda>pr. eligiblePR pr \<and> prowPositive pr) prs = 0
              then MakeInconclusiveResult CheckCodeReview (Some ErrorNoReviews)
              else MakeProportionalResult CheckCodeReview
                     (count (\<lambda>pr. eligiblePR pr \<and> prowPositive pr) prs) (count eligiblePR prs) (3 / 4))"
  using assms by (simp add: ProwCodeReview_def ProwCodeReview_loop_totals)

lemma CommitMessageHints_sampled:
  assumes "Repositories_ListCommits (Client c) (Owner c) (Repo c) = Inr commits"
  shows "fst (CommitMessageHints c)
           = (if count (\<lambda>commit. eligibleCommit commit \<and> commitPositive commit) commits = 0
              then MakeInconclusiveResult CheckCodeReview (Some ErrorNoReviews)
              else MakeProportionalResult CheckCodeReview
                     (count (\<lambda>commit. eligibleCommit commit \<and> commitPositive commit) commits)
                     (count eligibleCommit commits) (3 / 4))"
proof -
  obtain t tr lg where l: "CommitMessageHints_loop commits (0, 0, []) = (t, tr, lg)"
    by (cases "CommitMessageHints_loop commits (0, 0, [])") auto
  have "t = count eligibleCommit commits"
    using CommitMessageHints_loop_total [of commits "(0, 0, [])"] l by simp
  moreover have "tr = count (\<lambda>commit. eligibleCommit commit \<and> commitPositive commit) commits"
    using CommitMessageHints_loop_reviewed [of commits "(0, 0, [])"] l by simp
  ultimately show ?thesis
    using assms l by (simp add: CommitMessageHints_def)
qed

subsection \<open>Fetch errors\<close>

lemma IsPrReviewRequired_Get_error:
  "Repositories_Get (Client c) (Owner c) (Repo c) = Inl err \<Longrightarrow>
   IsPrReviewRequired c = (MakeRetryResult CheckCodeReview (Some err), [])"
  by (simp add: IsPrReviewRequired_def)

lemma CommitMessageHints_list_error:
  "Repositories_ListCommits (Client c) (Owner c) (Repo c) = Inl err \<Longrightarrow>
   CommitMessageHints c = (MakeRetryResult CheckCodeReview (Some err), [])"
  by (simp add: CommitMessageHints_def)

lemma GithubCodeReview_list_error:
  "PullRequests_List (Client c) (Owner c) (Repo c) ''closed'' = Inl err \<Longrightarrow>
   GithubCodeReview c = (MakeInconclusiveResult CheckCodeReview (Some err), [])"
  by (simp add: GithubCodeReview_def)

lemma ProwCodeReview_list_error:
  "PullRequests_List (Client c) (Owner c) (Repo c) ''closed'' = Inl err \<Longrightarrow>
   ProwCodeReview c = (MakeInconclusiveResult CheckCodeReview (Some err), [])"
  by (simp add: ProwCodeReview_def)

lemma GithubCodeReview_body_reviews_error:
  "PR_MergedAt pr \<noteq> None \<Longrightarrow>
   PullRequests_ListReviews (Client c) (Owner c) (Repo c) (PR_GetNumber pr) = Inl err \<Longrightarrow>
   GithubCodeReview_body c pr (totalMerged, totalReviewed, lg) = (totalMerged + 1, totalReviewed, lg)"
  by (simp add: GithubCodeReview_body_def)

text \<open>
  C1. The claim: whenever an evidence fetch returns an error, the check returns
  at once a Result classified retryable, the pull-request listing of
  \<open>GithubCodeReview\<close> and \<open>ProwCodeReview\<close> and the review listing inside the
  loop of \<open>GithubCodeReview\<close> included. The code at such inputs: when the
  listing of closed pull requests fails, \<open>GithubCodeReview\<close> and
  \<open>ProwCodeReview\<close> return an inconclusive Result, while on the same request
  \<open>IsPrReviewRequired\<close> and \<open>CommitMessageHints\<close> return a retryable one for
  their own failed fetch; and when the review listing of the one merged pull
  request fails, \<open>GithubCodeReview\<close> goes on, counts the pull request as
  merged and unreviewed, and returns the definitive result of the scoring rule
  for 0 out of 1.
\<close>

theorem fetch_errors_not_retryable:
  "PullRequests_List (Client req_all_fail) (Owner req_all_fail) (Repo req_all_fail) ''closed''
     = Inl transportError
   \<and> GithubCodeReview req_all_fail = (MakeInconclusiveResult CheckCodeReview (Some transportError), [])
   \<and> Classification (fst (GithubCodeReview req_all_fail)) = ErrInconclusive
   \<and> ProwCodeReview req_all_fail = (MakeInconclusiveResult CheckCodeReview (Some transportError), [])
   \<and> Classification (fst (ProwCodeReview req_all_fail)) = ErrInconclusive
   \<and> Classification (fst (IsPrReviewRequired req_all_fail)) = ErrRetryable
   \<and> Classification (fst (CommitMessageHints req_all_fail)) = ErrRetryable
   \<and> PullRequests_ListReviews (Client req_reviews_unreadable) (Owner req_reviews_unreadable)
       (Repo req_reviews_unreadable) 7 = Inl transportError
   \<and> GithubCodeReview req_reviews_unreadable
       = (MakeProportionalResult CheckCodeReview 0 1 (3 / 4), [])
   \<and> Classification (fst (GithubCodeReview req_reviews_unreadable)) = ErrNone"
  by (simp add: req_all_fail_def req_reviews_unreadable_def ex_defs GithubCodeReview_def
        ProwCodeReview_def IsPrReviewRequired_def CommitMessageHints_def
        GithubCodeReview_body_def PR_GetNumber_def
        MakeInconclusiveResult_def MakeRetryResult_def MakeProportionalResult_def)

subsection \<open>An empty population\<close>

lemma GithubCodeReview_loop_unmerged:
  "list_all (\<lambda>pr. PR_MergedAt pr = None) prs \<Longrightarrow> GithubCodeReview_loop c prs st = st"
  by (induction prs arbitrary: st) (auto simp: GithubCodeReview_body_def split: prod.splits)

lemma GithubCodeReview_no_merged:
  "PullRequests_List (Client c) (Owner c) (Repo c) ''closed'' = Inr prs \<Longrightarrow>
   list_all (\<lambda>pr. PR_MergedAt pr = None) prs \<Longrightarrow>
   GithubCodeReview c = (MakeProportionalResult CheckCodeReview 0 0 (3 / 4), [])"
  by (simp add: GithubCodeReview_def GithubCodeReview_loop_unmerged)

text \<open>
  C2. The claim: when no pull request of the listing was merged, the sampling
  heuristic returns an inconclusive Result and never calls the scoring rule
  with a zero denominator. The code at a listing of one closed, unmerged pull
  request: \<open>GithubCodeReview\<close> leaves its loop with \<open>totalMerged = 0\<close> and
  \<open>totalReviewed = 0\<close> and returns what the scoring rule gives for numerator 0
  and denominator 0, where \<open>ProwCodeReview\<close> returns an inconclusive Result
  without calling the rule.
\<close>

theorem GithubCodeReview_zero_merged:
  "PullRequests_List (Client req_no_merged) (Owner req_no_merged) (Repo req_no_merged) ''closed''
     = Inr [unmergedPR 3]
   \<and> GithubCodeReview_loop req_no_merged [unmergedPR 3] (0, 0, []) = (0, 0, [])
   \<and> GithubCodeReview req_no_merged = (MakeProportionalResult CheckCodeReview 0 0 (3 / 4), [])
   \<and> ProwCodeReview req_no_merged
       = (MakeInconclusiveResult CheckCodeReview (Some ErrorNoReviews), [])"
  by (simp add: req_no_merged_def ex_defs GithubCodeReview_def ProwCodeReview_def
        GithubCodeReview_body_def ProwCodeReview_body_def)

subsection \<open>Branch protection\<close>

text \<open>
  C8. In \<open>IsPrReviewRequired\<close>, when the repository is fetched and the read of
  the branch protection of its default branch returns an error, the result is
  the inconclusive Result carrying that error, not a retryable one.
\<close>

theorem IsPrReviewRequired_protection_unreadable:
  assumes "Repositories_Get (Client c) (Owner c) (Repo c) = Inr r"
    and "Repositories_GetBranchProtection (Client c) (Owner c) (Repo c)
           (Repository_GetDefaultBranch r) = Inl err"
  shows "IsPrReviewRequired c = (MakeInconclusiveResult CheckCodeReview (Some err), [])
       \<and> Classification (fst (IsPrReviewRequired c)) = ErrInconclusive
       \<and> Classification (fst (IsPrReviewRequired c)) \<noteq> ErrRetryable"
  using assms by (simp add: IsPrReviewRequired_def MakeInconclusiveResult_def)

theorem IsPrReviewRequired_protection_unreadable_witness:
  "Repositories_Get (Client req_protection_unreadable) (Owner req_protection_unreadable)
     (Repo req_protection_unreadable) = Inr mainRepository
   \<and> Repositories_GetBranchProtection (Client req_protection_unreadable)
       (Owner req_protection_unreadable) (Repo req_protection_unreadable)
       (Repository_GetDefaultBranch mainRepository) = Inl transportError
   \<and> IsPrReviewRequired req_protection_unreadable
       = (MakeInconclusiveResult CheckCodeReview (Some transportError), [])
   \<and> Classification (fst (IsPrReviewRequired req_protection_unreadable)) = ErrInconclusive"
proof -
  have g: "Repositories_Get (Client req_protection_unreadable) (Owner req_protection_unreadable)
     (Repo req_protection_unreadable) = Inr mainRepository"
    by (simp add: req_protection_unreadable_def ex_defs)
  have b: "Repositories_GetBranchProtection (Client req_protection_unreadable)
       (Owner req_protection_unreadable) (Repo req_protection_unreadable)
       (Repository_GetDefaultBranch mainRepository) = Inl transportError"
    by (simp add: req_protection_unreadable_def ex_defs)
  show ?thesis
    using IsPrReviewRequired_protection_unreadable [OF g b] g b by blast
qed

text \<open>
  C3, as the code has it. When the repository and the branch protection of its
  default branch are both read and the protection requires at least one
  approving review, \<open>IsPrReviewRequired\<close> returns a definitive pass with the
  fixed confidence 5, and the result does not depend on what the client would
  answer for pull requests, reviews or commits.
\<close>

theorem IsPrReviewRequired_enforced:
  assumes "Repositories_Get (Client c) (Owner c) (Repo c) = Inr r"
    and "Repositories_GetBranchProtection (Client c) (Owner c) (Repo c)
           (Repository_GetDefaultBranch r) = Inr bp"
    and "Protection_RequiredPullRequestReviews bp = Some e"
    and "1 \<le> RequiredApprovingReviewCount e"
  shows "fst (IsPrReviewRequired c)
           = \<lparr>Name = CheckCodeReview, Pass = True, Confidence = 5,
              Classification = ErrNone, Cause = None\<rparr>
       \<and> IsPrReviewRequired
           (c\<lparr>Client := (Client c)\<lparr>PullRequests_List := pl, PullRequests_ListReviews := lr,
                                    Repositories_GetCommit := gc, Repositories_ListCommits := lc\<rparr>\<rparr>)
           = IsPrReviewRequired c"
  using assms by (simp add: IsPrReviewRequired_def)

theorem IsPrReviewRequired_enforced_witness:
  "Repositories_Get (Client req_protected) (Owner req_protected) (Repo req_protected)
     = Inr mainRepository
   \<and> Repositories_GetBranchProtection (Client req_protected) (Owner req_protected)
       (Repo req_protected) (Repository_GetDefaultBranch mainRepository) = Inr (reviewProtection 1)
   \<and> Protection_RequiredPullRequestReviews (reviewProtection 1)
       = Some \<lparr>RequiredApprovingReviewCount = 1\<rparr>
   \<and> 1 \<le> RequiredApprovingReviewCount \<lparr>RequiredApprovingReviewCount = 1\<rparr>
   \<and> fst (IsPrReviewRequired req_protected)
       = \<lparr>Name = CheckCodeReview, Pass = True, Confidence = 5,
          Classification = ErrNone, Cause = None\<rparr>
   \<and> IsPrReviewRequired
         (req_protected\<lparr>Client := (Client req_protected)
            \<lparr>PullRequests_List := PullRequests_List (Client req_reviews_unreadable),
             PullRequests_ListReviews := PullRequests_ListReviews (Client req_reviews_unreadable),
             Repositories_GetCommit := Repositories_GetCommit (Client req_reviews_unreadable),
             Repositories_ListCommits := Repositories_ListCommits (Client req_reviews_unreadable)\<rparr>\<rparr>)
       = IsPrReviewRequired req_protected"
proof -
  have g: "Repositories_Get (Client req_protected) (Owner req_protected) (Repo req_protected)
     = Inr mainRepository"
    by (simp add: req_protected_def ex_defs)
  have b: "Repositories_GetBranchProtection (Client req_protected) (Owner req_protected)
       (Repo req_protected) (Repository_GetDefaultBranch mainRepository) = Inr (reviewProtection 1)"
    by (simp add: req_protected_def ex_defs Repository_GetDefaultBranch_def)
  have p: "Protection_RequiredPullRequestReviews (reviewProtection 1)
       = Some \<lparr>RequiredApprovingReviewCount = 1\<rparr>"
    by (simp add: reviewProtection_def)
  have n: "1 \<le> RequiredApprovingReviewCount \<lparr>RequiredApprovingReviewCount = 1\<rparr>"
    by simp
  show ?thesis
    using IsPrReviewRequired_enforced [OF g b p n] g b p n by blast
qed

text \<open>
  C3, as claimed, fails: with the repository read and a protection that
  requires one approving review, the confidence of the pass is 5, which is not
  the maximal value of the confidence range.
\<close>

theorem IsPrReviewRequired_confidence_counterexample:
  "Repositories_Get (Client req_protected) (Owner req_protected) (Repo req_protected)
     = Inr mainRepository
   \<and> Repositories_GetBranchProtection (Client req_protected) (Owner req_protected)
       (Repo req_protected) (Repository_GetDefaultBranch mainRepository) = Inr (reviewProtection 1)
   \<and> Pass (fst (IsPrReviewRequired req_protected))
   \<and> Confidence (fst (IsPrReviewRequired req_protected)) = 5
   \<and> Confidence (fst (IsPrReviewRequired req_protected)) \<noteq> MaxResultConfidence"
  by (simp add: req_protected_def ex_defs IsPrReviewRequired_def Repository_GetDefaultBranch_def
        MaxResultConfidence_def)

subsection \<open>Proportional results\<close>

text \<open>
  C4, as the code has it. Once its listing is fetched and the eligible
  population (merged pull requests, commits not committed by a bot account) is
  not empty, \<open>GithubCodeReview\<close> returns the result of the scoring rule for the
  reviewed and the merged pull requests with threshold 0.75, which is never
  inconclusive. \<open>ProwCodeReview\<close> and \<open>CommitMessageHints\<close> return the result
  of the scoring rule over their population with threshold 0.75 when at least
  one item of it counts as reviewed, and the inconclusive Result carrying
  \<open>ErrorNoReviews\<close> when none does.
\<close>

theorem sampling_heuristics_proportional:
  "(PullRequests_List (Client c) (Owner c) (Repo c) ''closed'' = Inr prs
      \<and> 0 < count eligiblePR prs \<longrightarrow>
      fst (GithubCodeReview c)
        = MakeProportionalResult CheckCodeReview
            (count (\<lambda>pr. eligiblePR pr \<and> githubPositive c pr) prs) (count eligiblePR prs) (3 / 4)
      \<and> Classification (fst (GithubCodeReview c)) = ErrNone
      \<and> fst (ProwCodeReview c)
        = (if count (\<lambda>pr. eligiblePR pr \<and> prowPositive pr) prs = 0
           then MakeInconclusiveResult CheckCodeReview (Some ErrorNoReviews)
           else MakeProportionalResult CheckCodeReview
                  (count (\<lambda>pr. eligiblePR pr \<and> prowPositive pr) prs) (count eligiblePR prs) (3 / 4)))
   \<and> (Repositories_ListCommits (Client c) (Owner c) (Repo c) = Inr commits
      \<and> 0 < count eligibleCommit commits \<longrightarrow>
      fst (CommitMessageHints c)
        = (if count (\<lambda>commit. eligibleCommit commit \<and> commitPositive commit) commits = 0
           then MakeInconclusiveResult CheckCodeReview (Some ErrorNoReviews)
           else MakeProportionalResult CheckCodeReview
                  (count (\<lambda>commit. eligibleCommit commit \<and> commitPositive commit) commits)
                  (count eligibleCommit commits) (3 / 4)))"
proof -
  have "Classification (fst (GithubCodeReview c)) = ErrNone"
    if "PullRequests_List (Client c) (Owner c) (Repo c) ''closed'' = Inr prs"
      and "0 < count eligiblePR prs"
    using that GithubCodeReview_sampled [of c prs]
    by (simp add: MakeProportionalResult_def Let_def)
  then show ?thesis
    using GithubCodeReview_sampled [of c prs] ProwCodeReview_sampled [of c prs]
      CommitMessageHints_sampled [of c commits]
    by blast
qed

theorem sampling_heuristics_proportional_witness:
  "PullRequests_List (Client req_sample) (Owner req_sample) (Repo req_sample) ''closed''
     = Inr samplePRs
   \<and> 0 < count eligiblePR samplePRs
   \<and> Repositories_ListCommits (Client req_sample) (Owner req_sample) (Repo req_sample)
       = Inr sampleCommits
   \<and> 0 < count eligibleCommit sampleCommits
   \<and> fst (GithubCodeReview req_sample) = MakeProportionalResult CheckCodeReview 3 4 (3 / 4)
   \<and> fst (ProwCodeReview req_sample) = MakeProportionalResult CheckCodeReview 2 4 (3 / 4)
   \<and> fst (CommitMessageHints req_sample) = MakeProportionalResult CheckCodeReview 1 2 (3 / 4)"
proof -
  have l: "PullRequests_List (Client req_sample) (Owner req_sample) (Repo req_sample) ''closed''
     = Inr samplePRs"
    by (simp add: req_sample_def ex_defs)
  have m: "count eligiblePR samplePRs = 4"
    by (simp add: sample_defs ex_defs eligiblePR_def)
  have g: "count (\<lambda>pr. eligiblePR pr \<and> githubPositive req_sample pr) samplePRs = 3"
    by (simp add: sample_defs ex_defs getter_defs eligiblePR_def githubPositive_def
          approvedReview_def)
  have p: "count (\<lambda>pr. eligiblePR pr \<and> prowPositive pr) samplePRs = 2"
    by (simp add: sample_defs ex_defs getter_defs eligiblePR_def prowPositive_def)
  have k: "Repositories_ListCommits (Client req_sample) (Owner req_sample) (Repo req_sample)
       = Inr sampleCommits"
    by (simp add: req_sample_def ex_defs)
  have t: "count eligibleCommit sampleCommits = 2"
    by (simp add: sample_defs getter_defs eligibleCommit_def botCommitter_def)
  have r: "count (\<lambda>commit. eligibleCommit commit \<and> commitPositive commit) sampleCommits = 1"
    by (simp add: sample_defs getter_defs eligibleCommit_def botCommitter_def commitPositive_def)
  show ?thesis
    using sampling_heuristics_proportional [of req_sample samplePRs sampleCommits] l m g p k t r
    by simp
qed

text \<open>
  C4, as claimed, fails: with one merged pull request that carries no label,
  \<open>ProwCodeReview\<close> counts a population of one and returns an inconclusive
  Result, not the result of the scoring rule for 0 out of 1; and with one
  commit by a person whose message has no review trailer,
  \<open>CommitMessageHints\<close> does the same.
\<close>

theorem inconclusive_on_nonempty_counterexample:
  "PullRequests_List (Client req_unreviewed) (Owner req_unreviewed) (Repo req_unreviewed) ''closed''
     = Inr [mergedPR 7 []]
   \<and> ProwCodeReview_loop [mergedPR 7 []] (0, 0) = (1, 0)
   \<and> Classification (fst (ProwCodeReview req_unreviewed)) = ErrInconclusive
   \<and> fst (ProwCodeReview req_unreviewed) \<noteq> MakeProportionalResult CheckCodeReview 0 1 (3 / 4)
   \<and> Repositories_ListCommits (Client req_unreviewed) (Owner req_unreviewed) (Repo req_unreviewed)
       = Inr [commitBy ''alice'' ''alice'' ''Fix typo'']
   \<and> CommitMessageHints_loop [commitBy ''alice'' ''alice'' ''Fix typo''] (0, 0, []) = (1, 0, [])
   \<and> Classification (fst (CommitMessageHints req_unreviewed)) = ErrInconclusive
   \<and> fst (CommitMessageHints req_unreviewed) \<noteq> MakeProportionalResult CheckCodeReview 0 1 (3 / 4)"
  by (simp add: req_unreviewed_def sample_defs ex_defs getter_defs ProwCodeReview_def
        ProwCodeReview_body_def CommitMessageHints_def CommitMessageHints_body_def
        MakeInconclusiveResult_def MakeProportionalResult_def)

text \<open>
  C10. The arguments the three heuristics pass to the scoring rule are the
  totals their loops end with, started at zero. In each, the numerator
  \<open>totalReviewed\<close> lies between 0 and the denominator (\<open>totalMerged\<close> or
  \<open>total\<close>): the denominator is the number of eligible items of the listing,
  and the numerator is the number of eligible items that count as reviewed,
  each counted once however many reviews, labels or signals it has. Hence the
  ratio of a positive denominator is at most 1.
\<close>

theorem totalReviewed_le_total:
  "0 \<le> fst (snd (GithubCodeReview_loop c prs (0, 0, [])))
   \<and> fst (snd (GithubCodeReview_loop c prs (0, 0, []))) \<le> fst (GithubCodeReview_loop c prs (0, 0, []))
   \<and> 0 \<le> snd (ProwCodeReview_loop prs (0, 0))
   \<and> snd (ProwCodeReview_loop prs (0, 0)) \<le> fst (ProwCodeReview_loop prs (0, 0))
   \<and> 0 \<le> fst (snd (CommitMessageHints_loop commits (0, 0, [])))
   \<and> fst (snd (CommitMessageHints_loop commits (0, 0, [])))
       \<le> fst (CommitMessageHints_loop commits (0, 0, []))
   \<and> fst (GithubCodeReview_loop c prs (0, 0, [])) = count eligiblePR prs
   \<and> fst (snd (GithubCodeReview_loop c prs (0, 0, [])))
       = count (\<lambda>pr. eligiblePR pr \<and> githubPositive c pr) prs
   \<and> ProwCodeReview_loop prs (0, 0)
       = (count eligiblePR prs, count (\<lambda>pr. eligiblePR pr \<and> prowPositive pr) prs)
   \<and> fst (CommitMessageHints_loop commits (0, 0, [])) = count eligibleCommit commits
   \<and> fst (snd (CommitMessageHints_loop commits (0, 0, [])))
       = count (\<lambda>commit. eligibleCommit commit \<and> commitPositive commit) commits
   \<and> (0 < fst (GithubCodeReview_loop c prs (0, 0, [])) \<longrightarrow>
        (of_int (fst (snd (GithubCodeReview_loop c prs (0, 0, []))))
           / of_int (fst (GithubCodeReview_loop c prs (0, 0, []))) :: rat) \<le> 1)
   \<and> (0 < fst (ProwCodeReview_loop prs (0, 0)) \<longrightarrow>
        (of_int (snd (ProwCodeReview_loop prs (0, 0)))
           / of_int (fst (ProwCodeReview_loop prs (0, 0))) :: rat) \<le> 1)
   \<and> (0 < fst (CommitMessageHints_loop commits (0, 0, [])) \<longrightarrow>
        (of_int (fst (snd (CommitMessageHints_loop commits (0, 0, []))))
           / of_int (fst (CommitMessageHints_loop commits (0, 0, []))) :: rat) \<le> 1)"
  by (simp add: GithubCodeReview_loop_merged GithubCodeReview_loop_reviewed
        ProwCodeReview_loop_totals CommitMessageHints_loop_total CommitMessageHints_loop_reviewed
        count_conj_le count_nonneg)

theorem totalReviewed_le_total_witness:
  "GithubCodeReview_loop req_sample samplePRs (0, 0, []) =
     (4, 3,
      [(''found review approved pr: %d'', [IntArg 1]),
       (''found pr with committer different than author: %d'', [IntArg 2]),
       (''found review approved pr: %d'', [IntArg 4])])
   \<and> ProwCodeReview_loop samplePRs (0, 0) = (4, 2)
   \<and> CommitMessageHints_loop sampleCommits (0, 0, []) =
       (2, 1, [(''skip commit from bot account: %s'', [StrArg ''k8s-ci-robot''])])
   \<and> count eligiblePR samplePRs = 4
   \<and> count (\<lambda>pr. eligiblePR pr \<and> githubPositive req_sample pr) samplePRs = 3
   \<and> (3 / 4 :: rat) \<le> 1"
proof -
  have g: "GithubCodeReview_loop req_sample samplePRs (0, 0, []) =
     (4, 3,
      [(''found review approved pr: %d'', [IntArg 1]),
       (''found pr with committer different than author: %d'', [IntArg 2]),
       (''found review approved pr: %d'', [IntArg 4])])"
    by (simp add: sample_defs ex_defs getter_defs GithubCodeReview_body_def)
  have p: "ProwCodeReview_loop samplePRs (0, 0) = (4, 2)"
    by (simp add: sample_defs ex_defs getter_defs ProwCodeReview_body_def)
  have k: "CommitMessageHints_loop sampleCommits (0, 0, []) =
       (2, 1, [(''skip commit from bot account: %s'', [StrArg ''k8s-ci-robot''])])"
    by (simp add: sample_defs getter_defs CommitMessageHints_body_def)
  show ?thesis
    using totalReviewed_le_total [of req_sample samplePRs sampleCommits] g p k by simp
qed

subsection \<open>Bot accounts\<close>

text \<open>
  C9, as the code has it. The account \<open>CommitMessageHints\<close> tests against the
  denylist is the committer of the commit. A commit whose committer login
  contains \<open>bot\<close> or \<open>gardener\<close> leaves \<open>total\<close> and \<open>totalReviewed\<close> as they
  were (only the log grows), so the totals passed to the scoring rule are
  those of the listing with such commits removed: \<open>total\<close> counts the commits
  whose committer is not on the denylist, \<open>totalReviewed\<close> those of them with
  both review trailers.
\<close>

theorem CommitMessageHints_skips_bot_committers:
  "(Contains (User_GetLogin (RC_Committer commit)) ''bot''
      \<or> Contains (User_GetLogin (RC_Committer commit)) ''gardener'' \<longrightarrow>
      CommitMessageHints_body commit (total', totalReviewed, lg)
        = (total', totalReviewed,
           lg @ [(''skip commit from bot account: %s'',
                  [StrArg (User_GetLogin (RC_Committer commit))])]))
   \<and> fst (CommitMessageHints_loop commits (0, 0, [])) = count eligibleCommit commits
   \<and> fst (snd (CommitMessageHints_loop commits (0, 0, [])))
       = count (\<lambda>commit. eligibleCommit commit \<and> commitPositive commit) commits
   \<and> fst (CommitMessageHints_loop commits (0, 0, []))
       = fst (CommitMessageHints_loop (filter eligibleCommit commits) (0, 0, []))
   \<and> fst (snd (CommitMessageHints_loop commits (0, 0, [])))
       = fst (snd (CommitMessageHints_loop (filter eligibleCommit commits) (0, 0, [])))"
proof -
  have body: "Contains (User_GetLogin (RC_Committer commit)) ''bot''
      \<or> Contains (User_GetLogin (RC_Committer commit)) ''gardener'' \<longrightarrow>
      CommitMessageHints_body commit (total', totalReviewed, lg)
        = (total', totalReviewed,
           lg @ [(''skip commit from bot account: %s'',
                  [StrArg (User_GetLogin (RC_Committer commit))])])"
    by (simp add: CommitMessageHints_body_def Let_def del: Contains.simps)
  have f1: "count eligibleCommit (filter eligibleCommit commits) = count eligibleCommit commits"
    by (simp add: count_def)
  have f2: "count (\<lambda>commit. eligibleCommit commit \<and> commitPositive commit) (filter eligibleCommit commits)
      = count (\<lambda>commit. eligibleCommit commit \<and> commitPositive commit) commits"
    by (simp add: count_def cong: conj_cong)
  show ?thesis
    using body by (simp only: CommitMessageHints_loop_total CommitMessageHints_loop_reviewed f1 f2)
      simp
qed

theorem CommitMessageHints_skips_bot_committers_witness:
  "Contains (User_GetLogin (RC_Committer commit_bot_committer)) ''bot''
   \<and> CommitMessageHints_body commit_bot_committer (5, 2, [])
       = (5, 2, [(''skip commit from bot account: %s'', [StrArg ''k8s-ci-robot''])])
   \<and> fst (CommitMessageHints_loop sampleCommits (0, 0, [])) = 2
   \<and> fst (snd (CommitMessageHints_loop sampleCommits (0, 0, []))) = 1
   \<and> filter eligibleCommit sampleCommits
       = [commitBy ''alice'' ''alice'' gerritMessage,
          commitBy ''dependabot'' ''dave'' ''Bump x from 1 to 2'']"
proof -
  have b: "Contains (User_GetLogin (RC_Committer commit_bot_committer)) ''bot''"
    by (simp add: commit_bot_committer_def commitBy_def User_GetLogin_def)
  have l: "User_GetLogin (RC_Committer commit_bot_committer) = ''k8s-ci-robot''"
    by (simp add: commit_bot_committer_def commitBy_def User_GetLogin_def)
  have t: "count eligibleCommit sampleCommits = 2"
    by (simp add: sample_defs getter_defs eligibleCommit_def botCommitter_def)
  have r: "count (\<lambda>commit. eligibleCommit commit \<and> commitPositive commit) sampleCommits = 1"
    by (simp add: sample_defs getter_defs eligibleCommit_def botCommitter_def commitPositive_def)
  have f: "filter eligibleCommit sampleCommits
       = [commitBy ''alice'' ''alice'' gerritMessage,
          commitBy ''dependabot'' ''dave'' ''Bump x from 1 to 2'']"
    by (simp add: sample_defs getter_defs eligibleCommit_def botCommitter_def)
  show ?thesis
    using CommitMessageHints_skips_bot_committers
            [of commit_bot_committer 5 2 "[]" sampleCommits] b l t r f
    by simp
qed

text \<open>
  C9, as claimed (the denylist matched on the author of the commit), fails: a
  commit authored by \<open>dependabot\<close> and committed by a person is not skipped; it
  is counted in \<open>total\<close> and, with both review trailers, in \<open>totalReviewed\<close>.
\<close>

theorem bot_author_counted_counterexample:
  "Contains (User_GetLogin (RC_Author commit_bot_author)) ''bot''
   \<and> CommitMessageHints_loop [commit_bot_author] (0, 0, []) = (1, 1, [])"
  by (simp add: commit_bot_author_def commitBy_def gerritMessage_def getter_defs
        CommitMessageHints_body_def)

subsection \<open>The scoring rule\<close>

text \<open>
  C7. For a positive denominator and a threshold in (0, 1], the scoring rule
  passes iff \<open>numerator / denominator\<close> reaches the threshold; its confidence
  is a function of its arguments, lies between 0 and \<open>MaxResultConfidence\<close>,
  and does not decrease when the numerator grows with the denominator fixed;
  8 out of 10 passes at threshold 0.75 and 3 out of 5 fails.
\<close>

theorem MakeProportionalResult_rule:
  assumes "0 < denominator" and "0 < threshold" and "threshold \<le> 1"
  shows "(Pass (MakeProportionalResult name numerator denominator threshold)
            \<longleftrightarrow> threshold \<le> of_int numerator / of_int denominator)
       \<and> 0 \<le> Confidence (MakeProportionalResult name numerator denominator threshold)
       \<and> Confidence (MakeProportionalResult name numerator denominator threshold)
            \<le> MaxResultConfidence
       \<and> (numerator \<le> numerator' \<longrightarrow>
            Confidence (MakeProportionalResult name numerator denominator threshold)
              \<le> Confidence (MakeProportionalResult name numerator' denominator threshold))
       \<and> Pass (MakeProportionalResult name 8 10 (3 / 4))
       \<and> \<not> Pass (MakeProportionalResult name 3 5 (3 / 4))"
proof -
  have mono: "numerator \<le> numerator' \<longrightarrow>
      proportionalConfidence (of_int numerator / of_int denominator)
        \<le> proportionalConfidence (of_int numerator' / of_int denominator)"
  proof
    assume le: "numerator \<le> numerator'"
    have "(of_int numerator / of_int denominator :: rat) \<le> of_int numerator' / of_int denominator"
      using le assms(1) by (simp add: divide_right_mono)
    then have "(of_int numerator / of_int denominator * of_int MaxResultConfidence :: rat)
        \<le> of_int numerator' / of_int denominator * of_int MaxResultConfidence"
      by (rule mult_right_mono) (simp add: MaxResultConfidence_def)
    then have "\<lfloor>of_int numerator / of_int denominator * of_int MaxResultConfidence :: rat\<rfloor>
        \<le> \<lfloor>of_int numerator' / of_int denominator * of_int MaxResultConfidence :: rat\<rfloor>"
      by (rule floor_mono)
    then show "proportionalConfidence (of_int numerator / of_int denominator)
        \<le> proportionalConfidence (of_int numerator' / of_int denominator)"
      unfolding proportionalConfidence_def by linarith
  qed
  have bounds: "0 \<le> proportionalConfidence r \<and> proportionalConfidence r \<le> MaxResultConfidence" for r
    by (simp add: proportionalConfidence_def MaxResultConfidence_def)
  have ex: "Pass (MakeProportionalResult name 8 10 (3 / 4))
      \<and> \<not> Pass (MakeProportionalResult name 3 5 (3 / 4))"
    by (simp add: MakeProportionalResult_def Let_def)
  show ?thesis
    using assms(1) mono bounds ex
    by (simp add: MakeProportionalResult_def Let_def)
qed

theorem MakeProportionalResult_rule_witness:
  "(0::int) < 10 \<and> (0::rat) < 3 / 4 \<and> (3 / 4 :: rat) \<le> 1
   \<and> MakeProportionalResult ''Code-Review'' 8 10 (3 / 4)
       = \<lparr>Name = ''Code-Review'', Pass = True, Confidence = 8,
          Classification = ErrNone, Cause = None\<rparr>
   \<and> Confidence (MakeProportionalResult ''Code-Review'' 3 10 (3 / 4))
       \<le> Confidence (MakeProportionalResult ''Code-Review'' 8 10 (3 / 4))
   \<and> \<not> Pass (MakeProportionalResult ''Code-Review'' 3 5 (3 / 4))"
proof -
  have d: "(0::int) < 10" by simp
  have t: "(0::rat) < 3 / 4" by simp
  have u: "(3 / 4 :: rat) \<le> 1" by simp
  have v: "MakeProportionalResult ''Code-Review'' 8 10 (3 / 4)
       = \<lparr>Name = ''Code-Review'', Pass = True, Confidence = 8,
          Classification = ErrNone, Cause = None\<rparr>"
    by (simp add: MakeProportionalResult_def proportionalConfidence_def MaxResultConfidence_def)
  have n: "(3::int) \<le> 8" by simp
  show ?thesis
    using MakeProportionalResult_rule [OF d t u, of "''Code-Review''" 3 8] d t u v n by simp
qed

subsection \<open>The combinator\<close>

lemma find_first:
  "\<forall>x\<in>set xs. \<not> P x \<Longrightarrow> P y \<Longrightarrow> find P (xs @ y # ys) = Some y"
  by (induction xs) auto

lemma find_none: "\<forall>x\<in>set xs. \<not> P x \<Longrightarrow> find P xs = None"
  by (induction xs) auto

lemma MultiCheckOr_run_stops:
  "\<forall>f\<in>set pre. \<not> definitivePass (fst (f c)) \<Longrightarrow> definitivePass (fst (A c)) \<Longrightarrow>
   MultiCheckOr_run (pre @ A # rest) c
     = (map (\<lambda>f. fst (f c)) pre @ [fst (A c)], concat (map (\<lambda>f. snd (f c)) (pre @ [A])))"
  by (induction pre) (auto split: prod.splits)

lemma MultiCheckOr_run_all:
  "\<forall>f\<in>set fs. \<not> definitivePass (fst (f c)) \<Longrightarrow>
   MultiCheckOr_run fs c = (map (\<lambda>f. fst (f c)) fs, concat (map (\<lambda>f. snd (f c)) fs))"
  by (induction fs) (auto split: prod.splits)

lemma MultiCheckOr_no_pass_fold:
  assumes "\<forall>f\<in>set fs. \<not> definitivePass (fst (f c))"
  shows "MultiCheckOr name fs c =
      (case find isRetryable (map (\<lambda>f. fst (f c)) fs) of
         Some r \<Rightarrow> r
       | None \<Rightarrow> (case find isInconclusive (rev (map (\<lambda>f. fst (f c)) fs)) of
                     Some r \<Rightarrow> r
                   | None \<Rightarrow> MakeInconclusiveResult name None),
       concat (map (\<lambda>f. snd (f c)) fs))"
proof -
  have "find definitivePass (map (\<lambda>f. fst (f c)) fs) = None"
    using assms by (intro find_none) auto
  then show ?thesis
    by (simp add: MultiCheckOr_def MultiCheckOr_run_all [OF assms] MultiCheckOr_fold_def)
qed

text \<open>
  C5. Let the children before \<open>A\<close> in the list return no definitive pass on the
  request and let \<open>A\<close> return one. Then the combinator returns the Result of
  \<open>A\<close> with the name replaced by the combinator's own and nothing else
  changed, whatever the children after \<open>A\<close> are (so the earliest passing child
  wins), and its log holds the lines of the children up to \<open>A\<close> only: the
  children after \<open>A\<close> are not run.
\<close>

theorem MultiCheckOr_first_pass:
  assumes "\<forall>f\<in>set pre. \<not> definitivePass (fst (f c))"
    and "definitivePass (fst (A c))"
  shows "fst (MultiCheckOr name (pre @ A # rest) c) = (fst (A c))\<lparr>Name := name\<rparr>
       \<and> snd (MultiCheckOr name (pre @ A # rest) c) = concat (map (\<lambda>f. snd (f c)) (pre @ [A]))
       \<and> MultiCheckOr name (pre @ A # rest) c = MultiCheckOr name (pre @ A # rest') c"
proof -
  have "find definitivePass (map (\<lambda>f. fst (f c)) pre @ fst (A c) # []) = Some (fst (A c))"
    using assms by (intro find_first) auto
  then show ?thesis
    using assms by (simp add: MultiCheckOr_def MultiCheckOr_run_stops MultiCheckOr_fold_def)
qed

theorem MultiCheckOr_first_pass_witness:
  "\<not> definitivePass (fst (IsPrReviewRequired req_sample))
   \<and> definitivePass (fst (GithubCodeReview req_sample))
   \<and> fst (DoesCodeReview req_sample)
       = \<lparr>Name = CheckCodeReview, Pass = True, Confidence = 7,
          Classification = ErrNone, Cause = None\<rparr>
   \<and> snd (DoesCodeReview req_sample)
       = [(''found review approved pr: %d'', [IntArg 1]),
          (''found pr with committer different than author: %d'', [IntArg 2]),
          (''found review approved pr: %d'', [IntArg 4]),
          (''github code reviews found'', [])]
   \<and> DoesCodeReview req_sample
       = MultiCheckOr CheckCodeReview [IsPrReviewRequired, GithubCodeReview] req_sample"
proof -
  have i: "IsPrReviewRequired req_sample = (MakeRetryResult CheckCodeReview (Some transportError), [])"
    by (simp add: req_sample_def ex_defs IsPrReviewRequired_def)
  have g: "GithubCodeReview req_sample
      = (\<lparr>Name = CheckCodeReview, Pass = True, Confidence = 7,
           Classification = ErrNone, Cause = None\<rparr>,
         [(''found review approved pr: %d'', [IntArg 1]),
          (''found pr with committer different than author: %d'', [IntArg 2]),
          (''found review approved pr: %d'', [IntArg 4]),
          (''github code reviews found'', [])])"
    by (simp add: sample_defs ex_defs getter_defs GithubCodeReview_def GithubCodeReview_body_def
          result_defs floor_eq_iff)
  have p: "\<forall>f\<in>set [IsPrReviewRequired]. \<not> definitivePass (fst (f req_sample))"
    by (simp add: i result_defs)
  have a: "definitivePass (fst (GithubCodeReview req_sample))"
    by (simp add: g definitivePass_def)
  note t = MultiCheckOr_first_pass [where pre = "[IsPrReviewRequired]" and c = req_sample
            and A = GithubCodeReview and name = CheckCodeReview
            and rest = "[ProwCodeReview, CommitMessageHints]" and rest' = "[]", OF p a]
  have r: "fst (DoesCodeReview req_sample)
       = \<lparr>Name = CheckCodeReview, Pass = True, Confidence = 7,
          Classification = ErrNone, Cause = None\<rparr>"
    using t [THEN conjunct1] by (simp add: DoesCodeReview_def g)
  have l: "snd (DoesCodeReview req_sample)
       = [(''found review approved pr: %d'', [IntArg 1]),
          (''found pr with committer different than author: %d'', [IntArg 2]),
          (''found review approved pr: %d'', [IntArg 4]),
          (''github code reviews found'', [])]"
    using t [THEN conjunct2, THEN conjunct1] by (simp add: DoesCodeReview_def g i)
  have s: "DoesCodeReview req_sample
       = MultiCheckOr CheckCodeReview [IsPrReviewRequired, GithubCodeReview] req_sample"
    using t [THEN conjunct2, THEN conjunct2] by (simp add: DoesCodeReview_def)
  show ?thesis
    using p a r l s by simp
qed

text \<open>
  C6. Let no child return a definitive pass on the request. Then every child
  is run. If some child returns a retryable Result, the combinator returns the
  Result of the first such child. If none does and some child returns an
  inconclusive Result, the combinator returns the Result of the last such
  child. The combinator over no children returns an inconclusive Result.
\<close>

theorem MultiCheckOr_no_pass:
  assumes "\<forall>f\<in>set fs. \<not> definitivePass (fst (f c))"
  shows "(fs = pre @ A # rest
          \<and> (\<forall>f\<in>set pre. Classification (fst (f c)) \<noteq> ErrRetryable)
          \<and> Classification (fst (A c)) = ErrRetryable
          \<longrightarrow> fst (MultiCheckOr name fs c) = fst (A c))
       \<and> ((\<forall>f\<in>set fs. Classification (fst (f c)) \<noteq> ErrRetryable)
          \<and> fs = pre' @ B # rest'
          \<and> Classification (fst (B c)) = ErrInconclusive
          \<and> (\<forall>f\<in>set rest'. Classification (fst (f c)) \<noteq> ErrInconclusive)
          \<longrightarrow> fst (MultiCheckOr name fs c) = fst (B c))
       \<and> snd (MultiCheckOr name fs c) = concat (map (\<lambda>f. snd (f c)) fs)
       \<and> Classification (fst (MultiCheckOr name [] c)) = ErrInconclusive"
proof -
  note res = MultiCheckOr_no_pass_fold [OF assms, of name]
  have a: "fst (MultiCheckOr name fs c) = fst (A c)"
    if "fs = pre @ A # rest" "\<forall>f\<in>set pre. Classification (fst (f c)) \<noteq> ErrRetryable"
      "Classification (fst (A c)) = ErrRetryable"
  proof -
    have "find isRetryable (map (\<lambda>f. fst (f c)) pre @ fst (A c) # map (\<lambda>f. fst (f c)) rest)
        = Some (fst (A c))"
      using that by (intro find_first) (auto simp: isRetryable_def)
    then have "find isRetryable (map (\<lambda>f. fst (f c)) fs) = Some (fst (A c))"
      using that(1) by simp
    then show ?thesis by (simp add: res)
  qed
  have b: "fst (MultiCheckOr name fs c) = fst (B c)"
    if "\<forall>f\<in>set fs. Classification (fst (f c)) \<noteq> ErrRetryable" "fs = pre' @ B # rest'"
      "Classification (fst (B c)) = ErrInconclusive"
      "\<forall>f\<in>set rest'. Classification (fst (f c)) \<noteq> ErrInconclusive"
  proof -
    have "find isRetryable (map (\<lambda>f. fst (f c)) fs) = None"
      using that(1) by (intro find_none) (auto simp: isRetryable_def)
    moreover have "find isInconclusive
        (rev (map (\<lambda>f. fst (f c)) rest') @ fst (B c) # rev (map (\<lambda>f. fst (f c)) pre'))
        = Some (fst (B c))"
      using that by (intro find_first) (auto simp: isInconclusive_def)
    then have "find isInconclusive (rev (map (\<lambda>f. fst (f c)) fs)) = Some (fst (B c))"
      using that(2) by simp
    ultimately show ?thesis by (simp add: res)
  qed
  have z: "Classification (fst (MultiCheckOr name [] c)) = ErrInconclusive"
    by (simp add: MultiCheckOr_def MultiCheckOr_fold_def MakeInconclusiveResult_def)
  have l: "snd (MultiCheckOr name fs c) = concat (map (\<lambda>f. snd (f c)) fs)"
    by (simp add: res)
  show ?thesis using a b z l by blast
qed

theorem MultiCheckOr_no_pass_witness:
  "Classification (fst (IsPrReviewRequired req_commits_unreadable)) = ErrInconclusive
   \<and> \<not> Pass (fst (GithubCodeReview req_commits_unreadable))
   \<and> Classification (fst (GithubCodeReview req_commits_unreadable)) = ErrNone
   \<and> Classification (fst (ProwCodeReview req_commits_unreadable)) = ErrInconclusive
   \<and> Classification (fst (CommitMessageHints req_commits_unreadable)) = ErrRetryable
   \<and> fst (DoesCodeReview req_commits_unreadable)
       = MakeRetryResult CheckCodeReview (Some transportError)
   \<and> fst (IsPrReviewRequired req_unreviewed)
       = MakeInconclusiveResult CheckCodeReview (Some transportError)
   \<and> \<not> Pass (fst (GithubCodeReview req_unreviewed))
   \<and> Classification (fst (GithubCodeReview req_unreviewed)) = ErrNone
   \<and> Classification (fst (ProwCodeReview req_unreviewed)) = ErrInconclusive
   \<and> Classification (fst (CommitMessageHints req_unreviewed)) = ErrInconclusive
   \<and> fst (DoesCodeReview req_unreviewed)
       = MakeInconclusiveResult CheckCodeReview (Some ErrorNoReviews)
   \<and> snd (DoesCodeReview req_unreviewed) = []"
proof -
  let ?fs = "[IsPrReviewRequired, GithubCodeReview, ProwCodeReview, CommitMessageHints]"
  have i1: "IsPrReviewRequired req_commits_unreadable
      = (MakeInconclusiveResult CheckCodeReview (Some transportError), [])"
    by (simp add: req_commits_unreadable_def ex_defs IsPrReviewRequired_def)
  have g1: "GithubCodeReview req_commits_unreadable
      = (MakeProportionalResult CheckCodeReview 0 1 (3 / 4), [])"
    by (simp add: req_commits_unreadable_def ex_defs getter_defs GithubCodeReview_def
          GithubCodeReview_body_def)
  have p1: "ProwCodeReview req_commits_unreadable
      = (MakeInconclusiveResult CheckCodeReview (Some ErrorNoReviews), [])"
    by (simp add: req_commits_unreadable_def ex_defs getter_defs ProwCodeReview_def
          ProwCodeReview_body_def)
  have k1: "CommitMessageHints req_commits_unreadable
      = (MakeRetryResult CheckCodeReview (Some transportError), [])"
    by (simp add: req_commits_unreadable_def ex_defs CommitMessageHints_def)
  have i2: "IsPrReviewRequired req_unreviewed
      = (MakeInconclusiveResult CheckCodeReview (Some transportError), [])"
    by (simp add: req_unreviewed_def ex_defs IsPrReviewRequired_def)
  have g2: "GithubCodeReview req_unreviewed
      = (MakeProportionalResult CheckCodeReview 0 1 (3 / 4), [])"
    by (simp add: req_unreviewed_def ex_defs getter_defs GithubCodeReview_def
          GithubCodeReview_body_def)
  have p2: "ProwCodeReview req_unreviewed
      = (MakeInconclusiveResult CheckCodeReview (Some ErrorNoReviews), [])"
    by (simp add: req_unreviewed_def ex_defs getter_defs ProwCodeReview_def
          ProwCodeReview_body_def)
  have k2: "CommitMessageHints req_unreviewed
      = (MakeInconclusiveResult CheckCodeReview (Some ErrorNoReviews), [])"
    by (simp add: req_unreviewed_def sample_defs ex_defs getter_defs CommitMessageHints_def
          CommitMessageHints_body_def)
  have n1: "\<forall>f\<in>set ?fs. \<not> definitivePass (fst (f req_commits_unreadable))"
    by (simp add: i1 g1 p1 k1 result_defs)
  have n2: "\<forall>f\<in>set ?fs. \<not> definitivePass (fst (f req_unreviewed))"
    by (simp add: i2 g2 p2 k2 result_defs)
  have r1: "fst (DoesCodeReview req_commits_unreadable)
       = MakeRetryResult CheckCodeReview (Some transportError)"
    using MultiCheckOr_no_pass [where fs = ?fs and c = req_commits_unreadable
            and pre = "[IsPrReviewRequired, GithubCodeReview, ProwCodeReview]"
            and A = CommitMessageHints and rest = "[]" and name = CheckCodeReview, OF n1]
    by (simp add: DoesCodeReview_def i1 g1 p1 k1 result_defs)
  have r2: "fst (DoesCodeReview req_unreviewed)
         = MakeInconclusiveResult CheckCodeReview (Some ErrorNoReviews)
       \<and> snd (DoesCodeReview req_unreviewed) = []"
    using MultiCheckOr_no_pass [where fs = ?fs and c = req_unreviewed
            and pre' = "[IsPrReviewRequired, GithubCodeReview, ProwCodeReview]"
            and B = CommitMessageHints and rest' = "[]" and name = CheckCodeReview, OF n2]
    by (simp add: DoesCodeReview_def i2 g2 p2 k2 result_defs)
  show ?thesis
    using r1 r2 by (simp add: i1 g1 p1 k1 i2 g2 p2 k2 result_defs)
qed

end
